theory Spec2Isabelle
  imports Complex_Main
begin

section \<open>Data model\<close>

text \<open>
  The models of \<^verbatim>\<open>src/backend/server.py\<close>. A \<^verbatim>\<open>datetime\<close> is an instant counted
  from some epoch. \<^verbatim>\<open>hours\<close> and \<^verbatim>\<open>total_hours\<close> are Python floats: the type of hours is
  left open as any type \<open>'h\<close> with a zero and an addition, and no law of arithmetic is
  assumed of it, so that what is proved of the total holds of floating-point addition
  as well. The two \<^verbatim>\<open>id\<close> fields and \<^verbatim>\<open>notes\<close> are renamed, their names being taken
  in Isabelle.
\<close>

type_synonym datetime = nat

record User =
  email :: string
  full_name :: string
  role :: string
  reports_to :: "string option"
  id_user :: "string option"

record 'h DailyEntry =
  day_index :: int
  hours :: 'h
  notes_entry :: "string option"

record 'h TimesheetRow =
  project_id :: string
  sub_project_id :: string
  entries :: "'h DailyEntry list"
  location :: "string option"

text \<open>An entry of the audit trail is the dictionary \<^verbatim>\<open>{action, user, timestamp}\<close>.\<close>

record audit_entry =
  action :: string
  user :: string
  timestamp :: datetime

record 'h Timesheet =
  id_ts :: "string option"
  user_id :: string
  week_start_date :: string
  rows :: "'h TimesheetRow list"
  status :: string
  submitted_at :: "datetime option"
  approved_at :: "datetime option"
  approved_by :: "string option"
  rejected_at :: "datetime option"
  audit_trail :: "audit_entry list"
  total_hours :: 'h

section \<open>Errors\<close>

text \<open>
  \<open>HTTPException\<close> carries the status code and the detail the handler raises it with.
  \<open>InvalidId\<close> is what \<^verbatim>\<open>ObjectId(ts_id)\<close> raises on a string that is no id,
  \<open>AttributeError\<close> what \<^verbatim>\<open>ts.get\<close> raises when \<^verbatim>\<open>ts\<close> is \<^verbatim>\<open>None\<close>, and
  \<open>DuplicateKeyError\<close> what the store raises on inserting an \<^verbatim>\<open>_id\<close> it already holds,
  and \<open>ValidationError\<close> what the constructor of a model raises on a value that is not
  of the type of its field.
\<close>

datatype error =
    HTTPException nat string
  | InvalidId
  | AttributeError
  | DuplicateKeyError
  | ValidationError

definition Locked :: error where
  "Locked = HTTPException 400 ''Timesheet is locked''"

definition Forbidden :: error where
  "Forbidden = HTTPException 403 ''Not authorized''"

definition NotFound :: error where
  "NotFound = HTTPException 404 ''Timesheet not found''"

definition ForbiddenView :: error where
  "ForbiddenView = HTTPException 403 ''Cannot view other users' timesheets''"

text \<open>The body \<^verbatim>\<open>{"status": "success"}\<close> of submit, approve and reject.\<close>

definition success :: "(string \<times> string) list" where
  "success = [(''status'', ''success'')]"

section \<open>The document store\<close>

text \<open>
  The collection \<^verbatim>\<open>db.timesheets\<close>: the documents in insertion order, each with its
  \<^verbatim>\<open>_id\<close>. The type \<open>'i\<close> of these ids is left open. A stored document holds the fields
  of \<^verbatim>\<open>model_dump(exclude={"id"})\<close>, that is a \<open>Timesheet\<close> whose \<open>id_ts\<close> is \<open>None\<close>.
\<close>

type_synonym ('i, 'h) collection = "('i \<times> 'h Timesheet) list"

text \<open>\<^verbatim>\<open>find_one({"user_id": u, "week_start_date": w})\<close>: the first document that matches.\<close>

definition find_one_week ::
  "('i, 'h) collection \<Rightarrow> string \<Rightarrow> string \<Rightarrow> ('i \<times> 'h Timesheet) option" where
  "find_one_week db u w = find (\<lambda>(i, d). user_id d = u \<and> week_start_date d = w) db"

text \<open>\<^verbatim>\<open>find_one({"_id": oid})\<close>.\<close>

definition find_one_id :: "('i, 'h) collection \<Rightarrow> 'i \<Rightarrow> 'h Timesheet option" where
  "find_one_id db oid = map_of db oid"

text \<open>
  \<^verbatim>\<open>update_one({"_id": oid}, {"$set": ...})\<close>: the first document with that id gets the
  fields set, written as a function on documents; with no such document nothing happens
  (there is no upsert).
\<close>

fun update_one ::
  "'i \<Rightarrow> ('h Timesheet \<Rightarrow> 'h Timesheet) \<Rightarrow> ('i, 'h) collection \<Rightarrow> ('i, 'h) collection" where
  "update_one oid f [] = []"
| "update_one oid f ((i, d) # db) =
     (if i = oid then (i, f d) # db else (i, d) # update_one oid f db)"

text \<open>
  \<^verbatim>\<open>insert_one(doc)\<close>: the driver gives the document the id \<open>new_id\<close> it has generated;
  the store refuses an id it already holds.
\<close>

definition insert_one ::
  "'i \<Rightarrow> 'h Timesheet \<Rightarrow> ('i, 'h) collection \<Rightarrow> (error + 'i) \<times> ('i, 'h) collection" where
  "insert_one new_id doc db =
     (if new_id \<in> set (map fst db) then (Inl DuplicateKeyError, db)
      else (Inr new_id, db @ [(new_id, doc)]))"

section \<open>Saving a timesheet\<close>

text \<open>The loop of \<^verbatim>\<open>save_timesheet\<close> that adds up the hours, row by row, entry by entry.\<close>

definition calculate_total :: "('h::{zero,plus}) TimesheetRow list \<Rightarrow> 'h" where
  "calculate_total rs =
     foldl (\<lambda>total row. foldl (\<lambda>total entry. total + hours entry) total (entries row)) 0 rs"

text \<open>The \<^verbatim>\<open>$set\<close> of every field of \<^verbatim>\<open>ts_dict\<close>.\<close>

definition set_ts_dict :: "'h Timesheet \<Rightarrow> 'h Timesheet \<Rightarrow> 'h Timesheet" where
  "set_ts_dict ts_dict d =
     d\<lparr>user_id := user_id ts_dict,
       week_start_date := week_start_date ts_dict,
       rows := rows ts_dict,
       status := status ts_dict,
       submitted_at := submitted_at ts_dict,
       approved_at := approved_at ts_dict,
       approved_by := approved_by ts_dict,
       rejected_at := rejected_at ts_dict,
       audit_trail := audit_trail ts_dict,
       total_hours := total_hours ts_dict\<rparr>"

text \<open>
  The response \<^verbatim>\<open>Timesheet(id=..., **ts_dict)\<close>. The field \<^verbatim>\<open>id\<close> of the model has the
  alias \<^verbatim>\<open>_id\<close>, and the constructor reads the alias first: where the dictionary holds
  an \<^verbatim>\<open>_id\<close>, that value is taken for the id, and an \<^verbatim>\<open>ObjectId\<close> is not the string
  the field asks for. \<open>alias_id\<close> is the \<^verbatim>\<open>_id\<close> of the dictionary, if it has one.
\<close>

definition Timesheet_from ::
  "string \<Rightarrow> 'i option \<Rightarrow> 'h Timesheet \<Rightarrow> error + 'h Timesheet" where
  "Timesheet_from id_kw alias_id ts_dict =
     (case alias_id of
        Some oid \<Rightarrow> Inl ValidationError
      | None \<Rightarrow> Inr (ts_dict\<lparr>id_ts := Some id_kw\<rparr>))"

text \<open>
  \<^verbatim>\<open>save_timesheet(timesheet, current_user)\<close>. Besides the collection it reads the clock
  (\<open>now\<close>) and, when it inserts, the id the driver generates (\<open>new_id\<close>); \<open>str\<close> prints an
  id. The result is the response or the error raised, and the collection afterwards.
  \<^verbatim>\<open>update_one\<close> leaves \<^verbatim>\<open>ts_dict\<close> as it is; \<^verbatim>\<open>insert_one\<close> adds to the dictionary it
  is given the \<^verbatim>\<open>_id\<close> of the document it has stored, so that on this path the handler
  builds its response from a dictionary with an \<^verbatim>\<open>_id\<close>, after the write.
\<close>

definition save_timesheet ::
  "('i \<Rightarrow> string) \<Rightarrow> ('i, 'h::{zero,plus}) collection \<Rightarrow> 'h Timesheet \<Rightarrow> User \<Rightarrow> datetime \<Rightarrow> 'i
     \<Rightarrow> (error + 'h Timesheet) \<times> ('i, 'h) collection" where
  "save_timesheet str db timesheet current_user now new_id =
     (let existing = find_one_week db (user_id timesheet) (week_start_date timesheet) in
      if (case existing of None \<Rightarrow> False
          | Some (oid, e) \<Rightarrow> status e \<in> set [''Submitted'', ''Approved''])
         \<and> role current_user = ''Employee''
      then (Inl Locked, db)
      else
        let ts_dict = timesheet\<lparr>id_ts := None\<rparr>;
            ts_dict = ts_dict\<lparr>total_hours := calculate_total (rows ts_dict)\<rparr>;
            audit = \<lparr>action = (if existing = None then ''Created'' else ''Updated''),
                     user = email current_user, timestamp = now\<rparr>
        in case existing of
             Some (oid, e) \<Rightarrow>
               let ts_dict = ts_dict\<lparr>audit_trail := audit_trail e @ [audit]\<rparr>;
                   ts_dict = (if status e = ''Rejected'' then ts_dict\<lparr>status := ''Draft''\<rparr>
                              else ts_dict\<lparr>status := status e\<rparr>)
               in (Timesheet_from (str oid) (None :: 'i option) ts_dict,
                   update_one oid (set_ts_dict ts_dict) db)
           | None \<Rightarrow>
               let ts_dict = ts_dict\<lparr>audit_trail := [audit]\<rparr>;
                   ts_dict = ts_dict\<lparr>status := ''Draft''\<rparr>
               in (case insert_one new_id ts_dict db of
                     (Inl err, db') \<Rightarrow> (Inl err, db')
                   | (Inr oid, db') \<Rightarrow> (Timesheet_from (str oid) (Some oid) ts_dict, db')))"

text \<open>
  The total as the specification words it (\<^verbatim>\<open>ComputeTotal\<close>): the sum of the hours of
  every entry of every row, in encounter order, \<open>0\<close> for no rows.
\<close>

definition ComputeTotal :: "('h::{zero,plus}) TimesheetRow list \<Rightarrow> 'h" where
  "ComputeTotal rs = foldl (+) 0 (map hours (concat (map entries rs)))"

section \<open>Reading a timesheet\<close>

text \<open>
  \<^verbatim>\<open>get_timesheet_by_week(week_start, user_id, current_user)\<close>; an absent or empty
  \<^verbatim>\<open>user_id\<close> stands for the caller's own id. It only reads the collection.
\<close>

definition get_timesheet_by_week ::
  "('i \<Rightarrow> string) \<Rightarrow> ('i, 'h) collection \<Rightarrow> string \<Rightarrow> string option \<Rightarrow> User
     \<Rightarrow> error + 'h Timesheet option" where
  "get_timesheet_by_week str db week_start uid current_user =
     (let target_user_id =
            (case uid of None \<Rightarrow> id_user current_user
             | Some u \<Rightarrow> if u \<noteq> [] then Some u else id_user current_user) in
      if target_user_id \<noteq> id_user current_user \<and> role current_user = ''Employee''
      then Inl ForbiddenView
      else case target_user_id of
             None \<Rightarrow> Inr None
           | Some u \<Rightarrow>
               (case find_one_week db u week_start of
                  None \<Rightarrow> Inr None
                | Some (oid, ts) \<Rightarrow> Inr (Some (ts\<lparr>id_ts := Some (str oid)\<rparr>))))"

section \<open>Submit, approve, reject\<close>

text \<open>
  The three handlers take the id as the string \<^verbatim>\<open>ts_id\<close> of the request path and make
  an id of it with \<^verbatim>\<open>ObjectId\<close>, which raises on a string that is no id: \<open>ObjectId\<close> is
  that constructor, \<open>None\<close> where it raises. Each handler reads the clock twice, for the
  audit entry (\<open>now_audit\<close>) and for the field it sets (\<open>now_set\<close>).
\<close>

definition submit_timesheet ::
  "(string \<Rightarrow> 'i option) \<Rightarrow> ('i, 'h) collection \<Rightarrow> string \<Rightarrow> User \<Rightarrow> datetime \<Rightarrow> datetime
     \<Rightarrow> (error + (string \<times> string) list) \<times> ('i, 'h) collection" where
  "submit_timesheet ObjectId db ts_id current_user now_audit now_set =
     (case ObjectId ts_id of
        None \<Rightarrow> (Inl InvalidId, db)
      | Some oid \<Rightarrow>
          (case find_one_id db oid of
             None \<Rightarrow> (Inl NotFound, db)
           | Some ts \<Rightarrow>
               let audit = \<lparr>action = ''Submitted'', user = email current_user,
                             timestamp = now_audit\<rparr>
               in (Inr success,
                   update_one oid
                     (\<lambda>d. d\<lparr>status := ''Submitted'',
                             submitted_at := Some now_set,
                             audit_trail := audit_trail ts @ [audit]\<rparr>) db)))"

definition approve_timesheet ::
  "(string \<Rightarrow> 'i option) \<Rightarrow> ('i, 'h) collection \<Rightarrow> string \<Rightarrow> User \<Rightarrow> datetime \<Rightarrow> datetime
     \<Rightarrow> (error + (string \<times> string) list) \<times> ('i, 'h) collection" where
  "approve_timesheet ObjectId db ts_id current_user now_audit now_set =
     (if role current_user = ''Employee'' then (Inl Forbidden, db)
      else case ObjectId ts_id of
        None \<Rightarrow> (Inl InvalidId, db)
      | Some oid \<Rightarrow>
          (case find_one_id db oid of
             None \<Rightarrow> (Inl NotFound, db)
           | Some ts \<Rightarrow>
               let audit = \<lparr>action = ''Approved'', user = email current_user,
                             timestamp = now_audit\<rparr>
               in (Inr success,
                   update_one oid
                     (\<lambda>d. d\<lparr>status := ''Approved'',
                             approved_at := Some now_set,
                             approved_by := id_user current_user,
                             audit_trail := audit_trail ts @ [audit]\<rparr>) db)))"

text \<open>
  \<^verbatim>\<open>reject_timesheet\<close> does not test what \<^verbatim>\<open>find_one\<close> returned: with no document,
  \<^verbatim>\<open>ts\<close> is \<^verbatim>\<open>None\<close> and building the \<^verbatim>\<open>$set\<close> raises at \<^verbatim>\<open>ts.get\<close>, before
  \<^verbatim>\<open>update_one\<close> is called.
\<close>

definition reject_timesheet ::
  "(string \<Rightarrow> 'i option) \<Rightarrow> ('i, 'h) collection \<Rightarrow> string \<Rightarrow> User \<Rightarrow> datetime \<Rightarrow> datetime
     \<Rightarrow> (error + (string \<times> string) list) \<times> ('i, 'h) collection" where
  "reject_timesheet ObjectId db ts_id current_user now_audit now_set =
     (if role current_user = ''Employee'' then (Inl Forbidden, db)
      else case ObjectId ts_id of
        None \<Rightarrow> (Inl InvalidId, db)
      | Some oid \<Rightarrow>
          (let audit = \<lparr>action = ''Rejected'', user = email current_user,
                         timestamp = now_audit\<rparr>
           in case find_one_id db oid of
                None \<Rightarrow> (Inl AttributeError, db)
              | Some ts \<Rightarrow>
                  (Inr success,
                   update_one oid
                     (\<lambda>d. d\<lparr>status := ''Rejected'',
                             rejected_at := Some now_set,
                             audit_trail := audit_trail ts @ [audit]\<rparr>) db)))"

section \<open>Stored and returned records\<close>

text \<open>
  Two records are the same document when they agree on every field but the id: the
  response of \<^verbatim>\<open>save_timesheet\<close> carries an \<^verbatim>\<open>id\<close>, the stored document does not.
\<close>

definition same_document :: "'h Timesheet \<Rightarrow> 'h Timesheet \<Rightarrow> bool" where
  "same_document a b \<longleftrightarrow> a\<lparr>id_ts := None\<rparr> = b\<lparr>id_ts := None\<rparr>"

section \<open>Concrete inputs\<close>

text \<open>
  The data of the examples below. Ids are written as their 24 hexadecimal digits in lower
  case, which is also how an id prints; \<open>ObjectId_hex\<close> accepts exactly such strings, and
  stands for the constructor of the driver on them only (the driver reads digits in upper
  case too, which no example uses). The week is the
  one of \<^verbatim>\<open>backend_test.py\<close>: eight hours from Monday to Friday, none at the weekend. The
  payload asks for what a caller may not decide: a status, workflow timestamps and a
  total.
\<close>

definition str_id :: "string \<Rightarrow> string" where
  "str_id i = i"

definition ObjectId_hex :: "string \<Rightarrow> string option" where
  "ObjectId_hex s =
     (if length s = 24 \<and> list_all (\<lambda>c. c \<in> set ''0123456789abcdef'') s then Some s else None)"

definition oid_a :: string where "oid_a = ''65a1b2c3d4e5f60718293a4b''"
definition oid_b :: string where "oid_b = ''65a1b2c3d4e5f60718293a4c''"

definition employee_u1 :: User where
  "employee_u1 = \<lparr>email = ''u1@example.com'', full_name = ''U One'', role = ''Employee'',
     reports_to = Some ''u3'', id_user = Some ''u1''\<rparr>"

definition employee_u2 :: User where
  "employee_u2 = \<lparr>email = ''u2@example.com'', full_name = ''U Two'', role = ''Employee'',
     reports_to = Some ''u3'', id_user = Some ''u2''\<rparr>"

definition manager_u3 :: User where
  "manager_u3 = \<lparr>email = ''u3@example.com'', full_name = ''U Three'', role = ''Manager'',
     reports_to = None, id_user = Some ''u3''\<rparr>"

definition day :: "int \<Rightarrow> real \<Rightarrow> real DailyEntry" where
  "day i h = \<lparr>day_index = i, hours = h, notes_entry = Some []\<rparr>"

definition work_week :: "real TimesheetRow" where
  "work_week = \<lparr>project_id = ''p1'', sub_project_id = ''s1'',
     entries = [day 0 8, day 1 8, day 2 8, day 3 8, day 4 8, day 5 0, day 6 0],
     location = Some ''Remote''\<rparr>"

definition payload_u1 :: "real Timesheet" where
  "payload_u1 = \<lparr>id_ts = None, user_id = ''u1'', week_start_date = ''2024-01-01'',
     rows = [work_week], status = ''Approved'', submitted_at = Some 1, approved_at = Some 2,
     approved_by = Some ''u1'', rejected_at = None, audit_trail = [], total_hours = 99\<rparr>"

definition stored_u1 :: "string \<Rightarrow> real Timesheet" where
  "stored_u1 st = \<lparr>id_ts = None, user_id = ''u1'', week_start_date = ''2024-01-01'',
     rows = [], status = st, submitted_at = None, approved_at = None,
     approved_by = None, rejected_at = None,
     audit_trail = [\<lparr>action = ''Created'', user = ''u1@example.com'', timestamp = 10\<rparr>],
     total_hours = 0\<rparr>"

definition db_u1 :: "string \<Rightarrow> (string, real) collection" where
  "db_u1 st = [(oid_a, stored_u1 st)]"

definition created_u1 :: audit_entry where
  "created_u1 = \<lparr>action = ''Created'', user = ''u1@example.com'', timestamp = 10\<rparr>"

definition saved_u1 :: "string \<Rightarrow> audit_entry list \<Rightarrow> real Timesheet" where
  "saved_u1 st trail = payload_u1\<lparr>status := st, audit_trail := trail, total_hours := 40\<rparr>"

lemmas example_defs = str_id_def ObjectId_hex_def oid_a_def oid_b_def employee_u1_def
  employee_u2_def manager_u3_def day_def work_week_def payload_u1_def stored_u1_def db_u1_def
  created_u1_def saved_u1_def

lemmas handler_defs = save_timesheet_def Timesheet_from_def find_one_week_def find_one_id_def
  insert_one_def calculate_total_def set_ts_dict_def Let_def

section \<open>Lemmas on the store and on saving\<close>


lemma foldl_hours:
  "foldl (\<lambda>total entry. total + hours entry) a es = foldl (+) a (map hours es)"
  by (simp add: foldl_map)

lemma calculate_total_from:
  "foldl (\<lambda>total row. foldl (\<lambda>total entry. total + hours entry) total (entries row)) a rs
     = foldl (+) a (map hours (concat (map entries rs)))"
  by (induction rs arbitrary: a) (simp_all add: foldl_map)

lemma calculate_total_ComputeTotal: "calculate_total rs = ComputeTotal rs"
  by (simp add: calculate_total_def ComputeTotal_def calculate_total_from)

lemma find_one_id_update_one:
  "find_one_id (update_one oid f db) k =
     (if k = oid then map_option f (find_one_id db oid) else find_one_id db k)"
  by (induction db) (auto simp: find_one_id_def)

lemma find_one_week_in_set:
  "find_one_week db u w = Some (oid, e) \<Longrightarrow> (oid, e) \<in> set db"
  by (auto simp: find_one_week_def find_Some_iff in_set_conv_nth)

lemma find_one_week_stored:
  "find_one_week db u w = Some (oid, e) \<Longrightarrow> \<exists>d. find_one_id db oid = Some d"
  unfolding find_one_id_def
  by (metis find_one_week_in_set weak_map_of_SomeI)

lemma find_one_id_insert:
  "new_id \<notin> set (map fst db) \<Longrightarrow> find_one_id (db @ [(new_id, doc)]) new_id = Some doc"
  by (simp add: find_one_id_def map_add_def map_of_eq_None_iff[symmetric] del: map_of_eq_None_iff)

lemma save_existing:
  assumes "find_one_week db (user_id p) (week_start_date p) = Some (oid, e)"
    and "\<not> (status e \<in> set [''Submitted'', ''Approved''] \<and> role cu = ''Employee'')"
  shows "save_timesheet str db p cu now new_id =
    (let d = p\<lparr>id_ts := None, total_hours := calculate_total (rows p),
                audit_trail := audit_trail e @ [\<lparr>action = ''Updated'', user = email cu, timestamp = now\<rparr>],
                status := (if status e = ''Rejected'' then ''Draft'' else status e)\<rparr>
     in (Inr (d\<lparr>id_ts := Some (str oid)\<rparr>), update_one oid (set_ts_dict d) db))"
  using assms by (auto simp: save_timesheet_def Timesheet_from_def Let_def)

lemma save_new:
  assumes "find_one_week db (user_id p) (week_start_date p) = None"
    and "new_id \<notin> set (map fst db)"
  shows "save_timesheet str db p cu now new_id =
    (let d = p\<lparr>id_ts := None, total_hours := calculate_total (rows p),
                audit_trail := [\<lparr>action = ''Created'', user = email cu, timestamp = now\<rparr>],
                status := ''Draft''\<rparr>
     in (Inl ValidationError, db @ [(new_id, d)]))"
  using assms by (auto simp: save_timesheet_def Timesheet_from_def Let_def insert_one_def)

lemma save_locked:
  assumes "find_one_week db (user_id p) (week_start_date p) = Some (oid, e)"
    and "status e \<in> set [''Submitted'', ''Approved'']" and "role cu = ''Employee''"
  shows "save_timesheet str db p cu now new_id = (Inl Locked, db)"
  using assms by (auto simp: save_timesheet_def Let_def)

lemma save_duplicate:
  assumes "find_one_week db (user_id p) (week_start_date p) = None"
    and "new_id \<in> set (map fst db)"
  shows "save_timesheet str db p cu now new_id = (Inl DuplicateKeyError, db)"
  using assms by (auto simp: save_timesheet_def Let_def insert_one_def)

lemma save_success_cases:
  assumes "save_timesheet str db p cu now new_id = (Inr ts, db')"
  obtains oid e where "find_one_week db (user_id p) (week_start_date p) = Some (oid, e)"
      and "\<not> (status e \<in> set [''Submitted'', ''Approved''] \<and> role cu = ''Employee'')"
proof (cases "find_one_week db (user_id p) (week_start_date p)")
  case None
  show ?thesis
  proof (cases "new_id \<in> set (map fst db)")
    case True
    with None assms show ?thesis by (simp add: save_duplicate)
  next
    case False
    with None assms show ?thesis by (simp add: save_new Let_def)
  qed
next
  case (Some a)
  obtain oid e where a: "a = (oid, e)" by (cases a)
  show ?thesis
  proof (cases "status e \<in> set [''Submitted'', ''Approved''] \<and> role cu = ''Employee''")
    case True
    with Some a assms show ?thesis by (simp add: save_locked)
  next
    case False
    with Some a show ?thesis by (intro that) simp_all
  qed
qed

lemma same_document_fields:
  assumes "same_document a b"
  shows "user_id a = user_id b" "week_start_date a = week_start_date b" "rows a = rows b"
    "status a = status b" "submitted_at a = submitted_at b" "approved_at a = approved_at b"
    "approved_by a = approved_by b" "rejected_at a = rejected_at b"
    "audit_trail a = audit_trail b" "total_hours a = total_hours b"
  using assms by (cases a; cases b; simp add: same_document_def)+

lemma same_document_set_ts_dict: "same_document (set_ts_dict d d0) (d\<lparr>id_ts := x\<rparr>)"
  by (cases d; cases d0) (simp add: same_document_def set_ts_dict_def)

lemma stored_after_update:
  assumes "find_one_week db u w = Some (oid, e)"
  shows "\<exists>d0. find_one_id (update_one oid (set_ts_dict d) db) oid = Some (set_ts_dict d d0)"
  using find_one_week_stored[OF assms] by (auto simp: find_one_id_update_one)

lemma save_success:
  assumes "save_timesheet str db p cu now new_id = (Inr ts, db')"
  obtains oid e d where
    "find_one_week db (user_id p) (week_start_date p) = Some (oid, e)"
    "find_one_id db' oid = Some d" "same_document d ts"
    "ts = p\<lparr>id_ts := Some (str oid),
            total_hours := calculate_total (rows p),
            audit_trail := audit_trail e
              @ [\<lparr>action = ''Updated'', user = email cu, timestamp = now\<rparr>],
            status := (if status e = ''Rejected'' then ''Draft'' else status e)\<rparr>"
proof -
  from assms obtain oid e
    where upd: "find_one_week db (user_id p) (week_start_date p) = Some (oid, e)"
      "\<not> (status e \<in> set [''Submitted'', ''Approved''] \<and> role cu = ''Employee'')"
    by (rule save_success_cases)
  define d where "d = p\<lparr>id_ts := None, total_hours := calculate_total (rows p),
      audit_trail := audit_trail e @ [\<lparr>action = ''Updated'', user = email cu, timestamp = now\<rparr>],
      status := (if status e = ''Rejected'' then ''Draft'' else status e)\<rparr>"
  from assms have ts: "ts = d\<lparr>id_ts := Some (str oid)\<rparr>"
    and db': "db' = update_one oid (set_ts_dict d) db"
    by (simp_all add: save_existing[OF upd] Let_def d_def)
  obtain d0 where "find_one_id db' oid = Some (set_ts_dict d d0)"
    unfolding db' using stored_after_update[OF upd(1), of d] by blast
  moreover have "same_document (set_ts_dict d d0) ts"
    unfolding ts by (rule same_document_set_ts_dict)
  ultimately show ?thesis
    using upd(1) by (intro that[of oid e "set_ts_dict d d0"]) (simp_all add: ts d_def)
qed

text \<open>
  Under a new key the handler stores the document and raises at the response: what it
  has stored.
\<close>

lemma save_new_stored:
  assumes "find_one_week db (user_id p) (week_start_date p) = None"
    and "new_id \<notin> set (map fst db)"
  shows "\<exists>d. save_timesheet str db p cu now new_id = (Inl ValidationError, db @ [(new_id, d)])
           \<and> find_one_id (db @ [(new_id, d)]) new_id = Some d
           \<and> d = p\<lparr>id_ts := None, total_hours := calculate_total (rows p),
                   audit_trail := [\<lparr>action = ''Created'', user = email cu, timestamp = now\<rparr>],
                   status := ''Draft''\<rparr>"
  using save_new[OF assms, of str cu now] find_one_id_insert[OF assms(2)]
  by (simp add: Let_def)

section \<open>Lemmas on submit, approve and reject\<close>

lemma submit_existing:
  assumes "ObjectId ts_id = Some oid" and "find_one_id db oid = Some ts"
  shows "submit_timesheet ObjectId db ts_id cu na ns =
           (Inr success,
            update_one oid (\<lambda>d. d\<lparr>status := ''Submitted'', submitted_at := Some ns,
              audit_trail := audit_trail ts
                @ [\<lparr>action = ''Submitted'', user = email cu, timestamp = na\<rparr>]\<rparr>) db)"
    and "find_one_id (snd (submit_timesheet ObjectId db ts_id cu na ns)) oid =
           Some (ts\<lparr>status := ''Submitted'', submitted_at := Some ns,
              audit_trail := audit_trail ts
                @ [\<lparr>action = ''Submitted'', user = email cu, timestamp = na\<rparr>]\<rparr>)"
  using assms by (simp_all add: submit_timesheet_def find_one_id_update_one)

lemma approve_existing:
  assumes "role cu \<noteq> ''Employee''" and "ObjectId ts_id = Some oid"
    and "find_one_id db oid = Some ts"
  shows "approve_timesheet ObjectId db ts_id cu na ns =
           (Inr success,
            update_one oid (\<lambda>d. d\<lparr>status := ''Approved'', approved_at := Some ns,
              approved_by := id_user cu,
              audit_trail := audit_trail ts
                @ [\<lparr>action = ''Approved'', user = email cu, timestamp = na\<rparr>]\<rparr>) db)"
    and "find_one_id (snd (approve_timesheet ObjectId db ts_id cu na ns)) oid =
           Some (ts\<lparr>status := ''Approved'', approved_at := Some ns,
              approved_by := id_user cu,
              audit_trail := audit_trail ts
                @ [\<lparr>action = ''Approved'', user = email cu, timestamp = na\<rparr>]\<rparr>)"
  using assms by (simp_all add: approve_timesheet_def find_one_id_update_one)

lemma reject_existing:
  assumes "role cu \<noteq> ''Employee''" and "ObjectId ts_id = Some oid"
    and "find_one_id db oid = Some ts"
  shows "reject_timesheet ObjectId db ts_id cu na ns =
           (Inr success,
            update_one oid (\<lambda>d. d\<lparr>status := ''Rejected'', rejected_at := Some ns,
              audit_trail := audit_trail ts
                @ [\<lparr>action = ''Rejected'', user = email cu, timestamp = na\<rparr>]\<rparr>) db)"
    and "find_one_id (snd (reject_timesheet ObjectId db ts_id cu na ns)) oid =
           Some (ts\<lparr>status := ''Rejected'', rejected_at := Some ns,
              audit_trail := audit_trail ts
                @ [\<lparr>action = ''Rejected'', user = email cu, timestamp = na\<rparr>]\<rparr>)"
  using assms by (simp_all add: reject_timesheet_def find_one_id_update_one)

lemma submit_success:
  assumes "submit_timesheet ObjectId db ts_id cu na ns = (Inr r, db')"
  obtains oid ts where "ObjectId ts_id = Some oid" and "find_one_id db oid = Some ts"
  using assms by (auto simp: submit_timesheet_def split: option.splits)

lemma approve_success:
  assumes "approve_timesheet ObjectId db ts_id cu na ns = (Inr r, db')"
  obtains oid ts where "role cu \<noteq> ''Employee''" and "ObjectId ts_id = Some oid"
    and "find_one_id db oid = Some ts"
  using assms by (auto simp: approve_timesheet_def split: option.splits if_splits)

lemma reject_success:
  assumes "reject_timesheet ObjectId db ts_id cu na ns = (Inr r, db')"
  obtains oid ts where "role cu \<noteq> ''Employee''" and "ObjectId ts_id = Some oid"
    and "find_one_id db oid = Some ts"
  using assms by (auto simp: reject_timesheet_def Let_def split: option.splits if_splits)

lemma approve_employee:
  "role cu = ''Employee'' \<Longrightarrow> approve_timesheet ObjectId db ts_id cu na ns = (Inl Forbidden, db)"
  by (simp add: approve_timesheet_def)

lemma reject_employee:
  "role cu = ''Employee'' \<Longrightarrow> reject_timesheet ObjectId db ts_id cu na ns = (Inl Forbidden, db)"
  by (simp add: reject_timesheet_def)

lemma save_audit:
  assumes "save_timesheet str db p cu now new_id = (Inr ts, db')"
  shows "\<exists>oid d. id_ts ts = Some (str oid) \<and> find_one_id db' oid = Some d
           \<and> audit_trail d = audit_trail ts
           \<and> audit_trail ts =
               (case find_one_week db (user_id p) (week_start_date p) of
                  None \<Rightarrow> [] | Some (i, e) \<Rightarrow> audit_trail e)
               @ [\<lparr>action = (if find_one_week db (user_id p) (week_start_date p) = None
                              then ''Created'' else ''Updated''),
                    user = email cu, timestamp = now\<rparr>]"
proof -
  from assms obtain oid e d
    where f: "find_one_week db (user_id p) (week_start_date p) = Some (oid, e)"
      and st: "find_one_id db' oid = Some d" "same_document d ts"
      and ts: "id_ts ts = Some (str oid)"
        "audit_trail ts = audit_trail e
           @ [\<lparr>action = ''Updated'', user = email cu, timestamp = now\<rparr>]"
    by (rule save_success) simp
  with same_document_fields(9)[OF st(2)] show ?thesis
    by auto
qed

lemma save_new_audit:
  assumes "find_one_week db (user_id p) (week_start_date p) = None"
    and "new_id \<notin> set (map fst db)"
  shows "\<exists>d. save_timesheet str db p cu now new_id = (Inl ValidationError, db @ [(new_id, d)])
           \<and> audit_trail d = [\<lparr>action = ''Created'', user = email cu, timestamp = now\<rparr>]"
  using save_new_stored[OF assms, of str cu now] by auto

lemma submit_audit:
  assumes "submit_timesheet ObjectId db ts_id cu na ns = (Inr r, db')"
  shows "\<exists>oid old new. ObjectId ts_id = Some oid \<and> find_one_id db oid = Some old
           \<and> find_one_id db' oid = Some new
           \<and> audit_trail new = audit_trail old
               @ [\<lparr>action = ''Submitted'', user = email cu, timestamp = na\<rparr>]"
proof -
  from assms obtain oid ts where h: "ObjectId ts_id = Some oid" "find_one_id db oid = Some ts"
    by (rule submit_success)
  from submit_existing(2)[where ObjectId=ObjectId and ts_id=ts_id, OF h, of cu na ns] assms h show ?thesis
    by auto
qed

lemma approve_audit:
  assumes "approve_timesheet ObjectId db ts_id cu na ns = (Inr r, db')"
  shows "\<exists>oid old new. ObjectId ts_id = Some oid \<and> find_one_id db oid = Some old
           \<and> find_one_id db' oid = Some new
           \<and> audit_trail new = audit_trail old
               @ [\<lparr>action = ''Approved'', user = email cu, timestamp = na\<rparr>]"
proof -
  from assms obtain oid ts where h: "role cu \<noteq> ''Employee''" "ObjectId ts_id = Some oid"
      "find_one_id db oid = Some ts"
    by (rule approve_success)
  from approve_existing(2)[where ObjectId=ObjectId and ts_id=ts_id, OF h, of na ns] assms h show ?thesis
    by auto
qed

lemma reject_audit:
  assumes "reject_timesheet ObjectId db ts_id cu na ns = (Inr r, db')"
  shows "\<exists>oid old new. ObjectId ts_id = Some oid \<and> find_one_id db oid = Some old
           \<and> find_one_id db' oid = Some new
           \<and> audit_trail new = audit_trail old
               @ [\<lparr>action = ''Rejected'', user = email cu, timestamp = na\<rparr>]"
proof -
  from assms obtain oid ts where h: "role cu \<noteq> ''Employee''" "ObjectId ts_id = Some oid"
      "find_one_id db oid = Some ts"
    by (rule reject_success)
  from reject_existing(2)[where ObjectId=ObjectId and ts_id=ts_id, OF h, of na ns] assms h show ?thesis
    by auto
qed

section \<open>The handlers on the concrete inputs\<close>

lemma ObjectId_hex_oid [simp]: "ObjectId_hex oid_a = Some oid_a" "ObjectId_hex oid_b = Some oid_b"
  by (simp_all add: ObjectId_hex_def oid_a_def oid_b_def)

lemma find_week_db_u1:
  "find_one_week (db_u1 st) (user_id payload_u1) (week_start_date payload_u1)
     = Some (oid_a, stored_u1 st)"
  by (simp add: find_one_week_def db_u1_def payload_u1_def stored_u1_def)

lemma find_id_db_u1:
  "find_one_id (db_u1 st) oid_a = Some (stored_u1 st)" "find_one_id (db_u1 st) oid_b = None"
  by (simp_all add: find_one_id_def db_u1_def oid_a_def oid_b_def)

lemma update_db_u1: "update_one oid_a f (db_u1 st) = [(oid_a, f (stored_u1 st))]"
  by (simp add: db_u1_def)

lemma manager_u3_simps:
  "role manager_u3 = ''Manager''" "email manager_u3 = ''u3@example.com''"
  "id_user manager_u3 = Some ''u3''" "role manager_u3 \<noteq> ''Employee''"
  by (simp_all add: manager_u3_def)

lemma employee_simps:
  "role employee_u1 = ''Employee''" "email employee_u1 = ''u1@example.com''"
  "id_user employee_u1 = Some ''u1''"
  "role employee_u2 = ''Employee''" "email employee_u2 = ''u2@example.com''"
  "id_user employee_u2 = Some ''u2''"
  by (simp_all add: employee_u1_def employee_u2_def)

lemma save_db_u1:
  "\<not> (st \<in> set [''Submitted'', ''Approved''] \<and> role cu = ''Employee'') \<Longrightarrow>
   save_timesheet str_id (db_u1 st) payload_u1 cu now new_id =
     (Inr ((saved_u1 (if st = ''Rejected'' then ''Draft'' else st)
              [created_u1, \<lparr>action = ''Updated'', user = email cu, timestamp = now\<rparr>])
            \<lparr>id_ts := Some oid_a\<rparr>),
      [(oid_a, saved_u1 (if st = ''Rejected'' then ''Draft'' else st)
              [created_u1, \<lparr>action = ''Updated'', user = email cu, timestamp = now\<rparr>])])"
  by (simp add: handler_defs example_defs)

lemma save_empty:
  "save_timesheet str_id [] payload_u1 cu now new_id =
     (Inl ValidationError,
      [(new_id, saved_u1 ''Draft''
           [\<lparr>action = ''Created'', user = email cu, timestamp = now\<rparr>])])"
  by (simp add: handler_defs example_defs)

lemma find_week_empty:
  "find_one_week [] (user_id payload_u1) (week_start_date payload_u1)
     = (None :: (string \<times> real Timesheet) option)"
  by (simp add: find_one_week_def)

lemma submit_db_u1:
  "submit_timesheet ObjectId_hex (db_u1 st) oid_a cu na ns =
     (Inr success,
      [(oid_a, (stored_u1 st)\<lparr>status := ''Submitted'', submitted_at := Some ns,
          audit_trail := [created_u1, \<lparr>action = ''Submitted'', user = email cu, timestamp = na\<rparr>]\<rparr>)])"
  by (simp add: submit_timesheet_def find_id_db_u1 update_db_u1) (simp add: stored_u1_def created_u1_def)

lemma approve_db_u1:
  "role cu \<noteq> ''Employee'' \<Longrightarrow>
   approve_timesheet ObjectId_hex (db_u1 st) oid_a cu na ns =
     (Inr success,
      [(oid_a, (stored_u1 st)\<lparr>status := ''Approved'', approved_at := Some ns,
          approved_by := id_user cu,
          audit_trail := [created_u1, \<lparr>action = ''Approved'', user = email cu, timestamp = na\<rparr>]\<rparr>)])"
  by (simp add: approve_timesheet_def find_id_db_u1 update_db_u1) (simp add: stored_u1_def created_u1_def)

lemma reject_db_u1:
  "role cu \<noteq> ''Employee'' \<Longrightarrow>
   reject_timesheet ObjectId_hex (db_u1 st) oid_a cu na ns =
     (Inr success,
      [(oid_a, (stored_u1 st)\<lparr>status := ''Rejected'', rejected_at := Some ns,
          audit_trail := [created_u1, \<lparr>action = ''Rejected'', user = email cu, timestamp = na\<rparr>]\<rparr>)])"
  by (simp add: reject_timesheet_def find_id_db_u1 update_db_u1) (simp add: stored_u1_def created_u1_def)

section \<open>The claims\<close>

subsection \<open>C1: the lock on submitted and approved timesheets\<close>

text \<open>
  C1. Let a record be stored under the key (\<open>user_id\<close>, \<open>week_start_date\<close>) of the payload,
  with status Submitted or Approved. A Save by an Employee fails with \<open>Locked\<close> and leaves
  the collection as it was. The same Save by a Manager or an Admin succeeds, and the
  status of the record, returned and stored, is the stored status.
\<close>

theorem C1_locked_or_override:
  assumes "find_one_week db (user_id p) (week_start_date p) = Some (oid, e)"
    and "status e = ''Submitted'' \<or> status e = ''Approved''"
  shows "(role cu = ''Employee'' \<longrightarrow>
            save_timesheet str db p cu now new_id = (Inl Locked, db))
       \<and> (role cu = ''Manager'' \<or> role cu = ''Admin'' \<longrightarrow>
            (\<exists>ts db' d. save_timesheet str db p cu now new_id = (Inr ts, db')
               \<and> status ts = status e
               \<and> find_one_id db' oid = Some d \<and> status d = status e))"
proof (intro conjI impI)
  assume "role cu = ''Employee''"
  with assms show "save_timesheet str db p cu now new_id = (Inl Locked, db)"
    by (auto simp: save_locked)
next
  assume r: "role cu = ''Manager'' \<or> role cu = ''Admin''"
  then have ne: "\<not> (status e \<in> set [''Submitted'', ''Approved''] \<and> role cu = ''Employee'')"
    by auto
  define d where "d = p\<lparr>id_ts := None, total_hours := calculate_total (rows p),
      audit_trail := audit_trail e @ [\<lparr>action = ''Updated'', user = email cu, timestamp = now\<rparr>],
      status := (if status e = ''Rejected'' then ''Draft'' else status e)\<rparr>"
  have eq: "save_timesheet str db p cu now new_id =
      (Inr (d\<lparr>id_ts := Some (str oid)\<rparr>), update_one oid (set_ts_dict d) db)"
    by (simp add: save_existing[OF assms(1) ne] Let_def d_def)
  obtain d0 where st: "find_one_id (update_one oid (set_ts_dict d) db) oid = Some (set_ts_dict d d0)"
    using stored_after_update[OF assms(1), of d] by blast
  from assms(2) have "status d = status e"
    by (auto simp: d_def)
  then have "status (d\<lparr>id_ts := Some (str oid)\<rparr>) = status e"
    and "status (set_ts_dict d d0) = status e"
    by (simp_all add: set_ts_dict_def)
  with eq st show "\<exists>ts db' d. save_timesheet str db p cu now new_id = (Inr ts, db')
               \<and> status ts = status e
               \<and> find_one_id db' oid = Some d \<and> status d = status e"
    by blast
qed

text \<open>
  On a Submitted record: the owner, an Employee, is refused; a Manager saves and the
  status stays Submitted.
\<close>

theorem C1_locked_or_override_witness:
  "save_timesheet str_id (db_u1 ''Submitted'') payload_u1 employee_u1 20 oid_b
     = (Inl Locked, db_u1 ''Submitted'')
   \<and> (\<exists>ts db' d. save_timesheet str_id (db_u1 ''Submitted'') payload_u1 manager_u3 20 oid_b
          = (Inr ts, db')
        \<and> status ts = ''Submitted'' \<and> find_one_id db' oid_a = Some d \<and> status d = ''Submitted'')"
proof -
  have h1: "find_one_week (db_u1 ''Submitted'') (user_id payload_u1) (week_start_date payload_u1)
     = Some (oid_a, stored_u1 ''Submitted'')"
    by (rule find_week_db_u1)
  have h2: "status (stored_u1 ''Submitted'') = ''Submitted''
     \<or> status (stored_u1 ''Submitted'') = ''Approved''"
    by (simp add: stored_u1_def)
  have h3: "role employee_u1 = ''Employee''"
    by (simp add: employee_u1_def)
  have h4: "role manager_u3 = ''Manager'' \<or> role manager_u3 = ''Admin''"
    by (simp add: manager_u3_def)
  have h5: "status (stored_u1 ''Submitted'') = ''Submitted''"
    by (simp add: stored_u1_def)
  from C1_locked_or_override[OF h1 h2, where cu = employee_u1 and str = str_id and now = 20
      and new_id = oid_b]
    C1_locked_or_override[OF h1 h2, where cu = manager_u3 and str = str_id and now = 20
      and new_id = oid_b]
    h3 h4 h5
  show ?thesis by simp
qed

subsection \<open>C2: an Employee saving for another user\<close>

text \<open>
  C2 says that a Save by an Employee whose payload names another user is denied and
  writes nothing. \<^verbatim>\<open>save_timesheet\<close> never compares the payload's \<^verbatim>\<open>user_id\<close> with the
  caller's id: the Employee \<open>u2\<close> overwrites the Draft timesheet of \<open>u1\<close>, and creates one
  for \<open>u1\<close> where there was none, while \<^verbatim>\<open>get_timesheet_by_week\<close> refuses to show the same
  caller the same timesheet.
\<close>

theorem C2_employee_saves_for_other_user:
  "role employee_u2 = ''Employee'' \<and> id_user employee_u2 = Some ''u2''
 \<and> user_id payload_u1 = ''u1''
 \<and> save_timesheet str_id (db_u1 ''Draft'') payload_u1 employee_u2 20 oid_b
     = (Inr ((saved_u1 ''Draft''
              [created_u1, \<lparr>action = ''Updated'', user = ''u2@example.com'', timestamp = 20\<rparr>])
            \<lparr>id_ts := Some oid_a\<rparr>),
        [(oid_a, saved_u1 ''Draft''
              [created_u1, \<lparr>action = ''Updated'', user = ''u2@example.com'', timestamp = 20\<rparr>])])
 \<and> snd (save_timesheet str_id [] payload_u1 employee_u2 20 oid_b)
     = [(oid_b, saved_u1 ''Draft''
              [\<lparr>action = ''Created'', user = ''u2@example.com'', timestamp = 20\<rparr>])]
 \<and> get_timesheet_by_week str_id (db_u1 ''Draft'') ''2024-01-01'' (Some ''u1'') employee_u2
     = Inl ForbiddenView"
  by (simp add: save_db_u1 save_empty employee_simps get_timesheet_by_week_def)
    (simp add: payload_u1_def)

subsection \<open>C3: the total is recomputed\<close>

text \<open>
  C3. For every Save that succeeds, the total hours of the resulting record, returned and
  stored, are the sum of the hours of every entry of every row of the payload, in
  encounter order, whatever total the caller supplied; the rows are those of the payload,
  and the sum over no rows is \<open>0\<close>. A Save under a new key does not succeed: it stores
  the record and raises at the response. The record it has stored has the same total, so
  that no write of a Save takes the total from the caller.
\<close>

theorem C3_total:
  "(save_timesheet str db (p :: ('h::{zero,plus}) Timesheet) cu now new_id = (Inr ts, db') \<longrightarrow>
      total_hours ts = ComputeTotal (rows p) \<and> rows ts = rows p
    \<and> (\<exists>oid d. id_ts ts = Some (str oid) \<and> find_one_id db' oid = Some d
           \<and> total_hours d = ComputeTotal (rows p) \<and> rows d = rows p))
 \<and> (find_one_week db (user_id p) (week_start_date p) = None \<and> new_id \<notin> set (map fst db) \<longrightarrow>
      (\<exists>d. save_timesheet str db p cu now new_id = (Inl ValidationError, db @ [(new_id, d)])
         \<and> find_one_id (db @ [(new_id, d)]) new_id = Some d
         \<and> total_hours d = ComputeTotal (rows p) \<and> rows d = rows p))
 \<and> ComputeTotal ([] :: 'h TimesheetRow list) = 0"
proof (intro conjI impI)
  assume a: "save_timesheet str db p cu now new_id = (Inr ts, db')"
  then obtain oid d where st: "find_one_id db' oid = Some d" "same_document d ts"
    and ts: "id_ts ts = Some (str oid)" "total_hours ts = calculate_total (rows p)" "rows ts = rows p"
    by (rule save_success) simp
  from ts show "total_hours ts = ComputeTotal (rows p)" and "rows ts = rows p"
    by (simp_all add: calculate_total_ComputeTotal)
  from st ts same_document_fields[OF st(2)]
  show "\<exists>oid d. id_ts ts = Some (str oid) \<and> find_one_id db' oid = Some d
           \<and> total_hours d = ComputeTotal (rows p) \<and> rows d = rows p"
    by (auto simp: calculate_total_ComputeTotal)
next
  assume "find_one_week db (user_id p) (week_start_date p) = None \<and> new_id \<notin> set (map fst db)"
  then have n: "find_one_week db (user_id p) (week_start_date p) = None"
    "new_id \<notin> set (map fst db)"
    by simp_all
  from save_new_stored[OF n, of str cu now]
  show "\<exists>d. save_timesheet str db p cu now new_id = (Inl ValidationError, db @ [(new_id, d)])
         \<and> find_one_id (db @ [(new_id, d)]) new_id = Some d
         \<and> total_hours d = ComputeTotal (rows p) \<and> rows d = rows p"
    by (auto simp: calculate_total_ComputeTotal)
next
  show "ComputeTotal ([] :: 'h TimesheetRow list) = 0"
    by (simp add: ComputeTotal_def)
qed

text \<open>
  The week of five days of eight hours, sent with a total of 99: over a stored Draft the
  Save succeeds with a total of 40; on an empty collection it raises, and the record it
  has stored has a total of 40.
\<close>

theorem C3_total_witness:
  "fst (save_timesheet str_id (db_u1 ''Draft'') payload_u1 employee_u1 20 oid_b)
     = Inr ((saved_u1 ''Draft''
              [created_u1, \<lparr>action = ''Updated'', user = ''u1@example.com'', timestamp = 20\<rparr>])
            \<lparr>id_ts := Some oid_a\<rparr>)
   \<and> total_hours payload_u1 = 99
   \<and> ComputeTotal (rows payload_u1) = 40
   \<and> total_hours ((saved_u1 ''Draft''
              [created_u1, \<lparr>action = ''Updated'', user = ''u1@example.com'', timestamp = 20\<rparr>])
            \<lparr>id_ts := Some oid_a\<rparr>) = 40
   \<and> (\<exists>d. save_timesheet str_id [] payload_u1 employee_u1 20 oid_b
              = (Inl ValidationError, [(oid_b, d)])
          \<and> total_hours d = 40)"
proof -
  note c3 = C3_total[where str = str_id and p = payload_u1 and cu = employee_u1 and now = 20
      and new_id = oid_b]
  have h: "save_timesheet str_id (db_u1 ''Draft'') payload_u1 employee_u1 20 oid_b
     = (Inr ((saved_u1 ''Draft''
              [created_u1, \<lparr>action = ''Updated'', user = ''u1@example.com'', timestamp = 20\<rparr>])
            \<lparr>id_ts := Some oid_a\<rparr>),
        [(oid_a, saved_u1 ''Draft''
              [created_u1, \<lparr>action = ''Updated'', user = ''u1@example.com'', timestamp = 20\<rparr>])])"
    by (simp add: save_db_u1 employee_simps)
  have n: "find_one_week [] (user_id payload_u1) (week_start_date payload_u1)
      = (None :: (string \<times> real Timesheet) option) \<and> oid_b \<notin> set (map fst ([] :: (string, real) collection))"
    by (simp add: find_week_empty)
  have c: "ComputeTotal (rows payload_u1) = 40"
    by (simp add: ComputeTotal_def payload_u1_def work_week_def day_def)
  from c3[THEN conjunct1, rule_format, OF h]
  have "total_hours ((saved_u1 ''Draft''
              [created_u1, \<lparr>action = ''Updated'', user = ''u1@example.com'', timestamp = 20\<rparr>])
            \<lparr>id_ts := Some oid_a\<rparr>) = 40"
    by (simp add: c)
  moreover from c3[THEN conjunct2, THEN conjunct1, rule_format, OF n]
  have "\<exists>d. save_timesheet str_id [] payload_u1 employee_u1 20 oid_b
              = (Inl ValidationError, [(oid_b, d)])
          \<and> total_hours d = 40"
    by (auto simp: c)
  moreover have "total_hours payload_u1 = 99"
    by (simp add: payload_u1_def)
  ultimately show ?thesis
    using h c by simp
qed

subsection \<open>C4: the status after a Save\<close>

text \<open>
  C4. For every Save that succeeds, the status of the resulting record, returned and
  stored, is Draft when no record was stored under the key, Draft when the stored status
  was Rejected, and the stored status otherwise; the status of the payload plays no part.
  A Save under a new key does not succeed: it stores the record and raises at the
  response. The record it has stored is a Draft.
\<close>

theorem C4_status:
  "(save_timesheet str db p cu now new_id = (Inr ts, db') \<longrightarrow>
      status ts =
        (case find_one_week db (user_id p) (week_start_date p) of
           None \<Rightarrow> ''Draft''
         | Some (i, e) \<Rightarrow> if status e = ''Rejected'' then ''Draft'' else status e)
    \<and> (\<exists>oid d. id_ts ts = Some (str oid) \<and> find_one_id db' oid = Some d
           \<and> status d = status ts))
 \<and> (find_one_week db (user_id p) (week_start_date p) = None \<and> new_id \<notin> set (map fst db) \<longrightarrow>
      (\<exists>d. save_timesheet str db p cu now new_id = (Inl ValidationError, db @ [(new_id, d)])
         \<and> find_one_id (db @ [(new_id, d)]) new_id = Some d
         \<and> status d = ''Draft''))"
proof (intro conjI impI)
  assume a: "save_timesheet str db p cu now new_id = (Inr ts, db')"
  then obtain oid e d
    where f: "find_one_week db (user_id p) (week_start_date p) = Some (oid, e)"
      and st: "find_one_id db' oid = Some d" "same_document d ts"
      and ts: "id_ts ts = Some (str oid)"
        "status ts = (if status e = ''Rejected'' then ''Draft'' else status e)"
    by (rule save_success) simp
  from f ts show "status ts =
        (case find_one_week db (user_id p) (week_start_date p) of
           None \<Rightarrow> ''Draft''
         | Some (i, e) \<Rightarrow> if status e = ''Rejected'' then ''Draft'' else status e)"
    by simp
  from st ts same_document_fields(4)[OF st(2)]
  show "\<exists>oid d. id_ts ts = Some (str oid) \<and> find_one_id db' oid = Some d
           \<and> status d = status ts"
    by auto
next
  assume "find_one_week db (user_id p) (week_start_date p) = None \<and> new_id \<notin> set (map fst db)"
  then have n: "find_one_week db (user_id p) (week_start_date p) = None"
    "new_id \<notin> set (map fst db)"
    by simp_all
  from save_new_stored[OF n, of str cu now]
  show "\<exists>d. save_timesheet str db p cu now new_id = (Inl ValidationError, db @ [(new_id, d)])
         \<and> find_one_id (db @ [(new_id, d)]) new_id = Some d
         \<and> status d = ''Draft''"
    by auto
qed

text \<open>
  A Manager saves a payload that says Approved: over a Rejected record it is a Draft, and
  on an empty collection the record stored is a Draft.
\<close>

theorem C4_status_witness:
  "fst (save_timesheet str_id (db_u1 ''Rejected'') payload_u1 manager_u3 20 oid_b)
     = Inr ((saved_u1 ''Draft''
              [created_u1, \<lparr>action = ''Updated'', user = ''u3@example.com'', timestamp = 20\<rparr>])
            \<lparr>id_ts := Some oid_a\<rparr>)
   \<and> status payload_u1 = ''Approved''
   \<and> status ((saved_u1 ''Draft''
              [created_u1, \<lparr>action = ''Updated'', user = ''u3@example.com'', timestamp = 20\<rparr>])
            \<lparr>id_ts := Some oid_a\<rparr>) = ''Draft''
   \<and> (\<exists>d. save_timesheet str_id [] payload_u1 manager_u3 20 oid_b
              = (Inl ValidationError, [(oid_b, d)])
          \<and> status d = ''Draft'')"
proof -
  note c4 = C4_status[where str = str_id and p = payload_u1 and cu = manager_u3 and now = 20
      and new_id = oid_b]
  have h: "save_timesheet str_id (db_u1 ''Rejected'') payload_u1 manager_u3 20 oid_b
     = (Inr ((saved_u1 ''Draft''
              [created_u1, \<lparr>action = ''Updated'', user = ''u3@example.com'', timestamp = 20\<rparr>])
            \<lparr>id_ts := Some oid_a\<rparr>),
        [(oid_a, saved_u1 ''Draft''
              [created_u1, \<lparr>action = ''Updated'', user = ''u3@example.com'', timestamp = 20\<rparr>])])"
    by (simp add: save_db_u1 manager_u3_def)
  have n: "find_one_week [] (user_id payload_u1) (week_start_date payload_u1)
      = (None :: (string \<times> real Timesheet) option) \<and> oid_b \<notin> set (map fst ([] :: (string, real) collection))"
    by (simp add: find_week_empty)
  from c4[THEN conjunct1, rule_format, OF h]
  have "status ((saved_u1 ''Draft''
              [created_u1, \<lparr>action = ''Updated'', user = ''u3@example.com'', timestamp = 20\<rparr>])
            \<lparr>id_ts := Some oid_a\<rparr>) = ''Draft''"
    by (simp add: find_week_db_u1 stored_u1_def)
  moreover from c4[THEN conjunct2, rule_format, OF n]
  have "\<exists>d. save_timesheet str_id [] payload_u1 manager_u3 20 oid_b
              = (Inl ValidationError, [(oid_b, d)])
          \<and> status d = ''Draft''"
    by auto
  moreover have "status payload_u1 = ''Approved''"
    by (simp add: payload_u1_def)
  ultimately show ?thesis
    using h by simp
qed

subsection \<open>C5: the audit trail only grows\<close>

text \<open>
  C5. Every successful Save, Submit, Approve and Reject leaves as audit trail the stored
  one with exactly one entry appended: Created for a Save under a new key (where the
  stored trail counts as empty), Updated for a Save over a stored record, and Submitted,
  Approved, Rejected for the three other operations. No earlier entry is replaced or
  removed. A Save under a new key does not succeed: it stores the record and raises at
  the response. The record it has stored has the one entry Created as its trail, whatever
  trail the payload had.
\<close>

theorem C5_audit_append_only:
  "(save_timesheet str db p cu now new_id = (Inr ts, db1) \<longrightarrow>
      (\<exists>oid d. id_ts ts = Some (str oid) \<and> find_one_id db1 oid = Some d
         \<and> audit_trail d = audit_trail ts
         \<and> audit_trail ts =
             (case find_one_week db (user_id p) (week_start_date p) of
                None \<Rightarrow> [] | Some (i, e) \<Rightarrow> audit_trail e)
             @ [\<lparr>action = (if find_one_week db (user_id p) (week_start_date p) = None
                            then ''Created'' else ''Updated''),
                  user = email cu, timestamp = now\<rparr>]))
 \<and> (submit_timesheet ObjectId db ts_id cu na ns = (Inr r2, db2) \<longrightarrow>
      (\<exists>oid old new. ObjectId ts_id = Some oid \<and> find_one_id db oid = Some old
         \<and> find_one_id db2 oid = Some new
         \<and> audit_trail new = audit_trail old
             @ [\<lparr>action = ''Submitted'', user = email cu, timestamp = na\<rparr>]))
 \<and> (approve_timesheet ObjectId db ts_id cu na ns = (Inr r3, db3) \<longrightarrow>
      (\<exists>oid old new. ObjectId ts_id = Some oid \<and> find_one_id db oid = Some old
         \<and> find_one_id db3 oid = Some new
         \<and> audit_trail new = audit_trail old
             @ [\<lparr>action = ''Approved'', user = email cu, timestamp = na\<rparr>]))
 \<and> (reject_timesheet ObjectId db ts_id cu na ns = (Inr r4, db4) \<longrightarrow>
      (\<exists>oid old new. ObjectId ts_id = Some oid \<and> find_one_id db oid = Some old
         \<and> find_one_id db4 oid = Some new
         \<and> audit_trail new = audit_trail old
             @ [\<lparr>action = ''Rejected'', user = email cu, timestamp = na\<rparr>]))
 \<and> (find_one_week db (user_id p) (week_start_date p) = None \<and> new_id \<notin> set (map fst db) \<longrightarrow>
      (\<exists>d. save_timesheet str db p cu now new_id = (Inl ValidationError, db @ [(new_id, d)])
         \<and> find_one_id (db @ [(new_id, d)]) new_id = Some d
         \<and> audit_trail d = [\<lparr>action = ''Created'', user = email cu, timestamp = now\<rparr>]))"
proof (intro conjI impI)
  assume "find_one_week db (user_id p) (week_start_date p) = None \<and> new_id \<notin> set (map fst db)"
  then have n: "find_one_week db (user_id p) (week_start_date p) = None"
    "new_id \<notin> set (map fst db)"
    by simp_all
  from save_new_stored[OF n, of str cu now]
  show "\<exists>d. save_timesheet str db p cu now new_id = (Inl ValidationError, db @ [(new_id, d)])
         \<and> find_one_id (db @ [(new_id, d)]) new_id = Some d
         \<and> audit_trail d = [\<lparr>action = ''Created'', user = email cu, timestamp = now\<rparr>]"
    by auto
qed (erule save_audit submit_audit approve_audit reject_audit)+

text \<open>
  The four operations on a Draft with a trail of one entry, and a Save on an empty
  collection.
\<close>

theorem C5_audit_append_only_witness:
  "map_option audit_trail
     (find_one_id (snd (save_timesheet str_id (db_u1 ''Draft'') payload_u1 employee_u1 20 oid_b)) oid_a)
     = Some [created_u1, \<lparr>action = ''Updated'', user = ''u1@example.com'', timestamp = 20\<rparr>]
 \<and> map_option audit_trail
     (find_one_id (snd (submit_timesheet ObjectId_hex (db_u1 ''Draft'') oid_a employee_u1 21 22)) oid_a)
     = Some [created_u1, \<lparr>action = ''Submitted'', user = ''u1@example.com'', timestamp = 21\<rparr>]
 \<and> map_option audit_trail
     (find_one_id (snd (approve_timesheet ObjectId_hex (db_u1 ''Draft'') oid_a manager_u3 21 22)) oid_a)
     = Some [created_u1, \<lparr>action = ''Approved'', user = ''u3@example.com'', timestamp = 21\<rparr>]
 \<and> map_option audit_trail
     (find_one_id (snd (reject_timesheet ObjectId_hex (db_u1 ''Draft'') oid_a manager_u3 21 22)) oid_a)
     = Some [created_u1, \<lparr>action = ''Rejected'', user = ''u3@example.com'', timestamp = 21\<rparr>]
 \<and> (\<exists>d. save_timesheet str_id [] payload_u1 employee_u1 20 oid_b
            = (Inl ValidationError, [(oid_b, d)])
        \<and> audit_trail d
            = [\<lparr>action = ''Created'', user = ''u1@example.com'', timestamp = 20\<rparr>])"
proof -
  note c5 = C5_audit_append_only[where str = str_id and p = payload_u1 and cu = employee_u1
      and now = 20 and new_id = oid_b and ObjectId = ObjectId_hex and ts_id = oid_a
      and na = 21 and ns = 22]
  note c5m = C5_audit_append_only[where str = str_id and p = payload_u1 and cu = manager_u3
      and now = 20 and new_id = oid_b and ObjectId = ObjectId_hex and ts_id = oid_a
      and na = 21 and ns = 22 and db = "db_u1 ''Draft''"]
  have old: "audit_trail (stored_u1 ''Draft'') = [created_u1]"
    by (simp add: stored_u1_def created_u1_def)
  have s1: "save_timesheet str_id (db_u1 ''Draft'') payload_u1 employee_u1 20 oid_b =
     (Inr ((saved_u1 ''Draft''
              [created_u1, \<lparr>action = ''Updated'', user = ''u1@example.com'', timestamp = 20\<rparr>])
            \<lparr>id_ts := Some oid_a\<rparr>),
      [(oid_a, saved_u1 ''Draft''
              [created_u1, \<lparr>action = ''Updated'', user = ''u1@example.com'', timestamp = 20\<rparr>])])"
    by (simp add: save_db_u1 employee_simps)
  have s2: "submit_timesheet ObjectId_hex (db_u1 ''Draft'') oid_a employee_u1 21 22 =
     (Inr success,
      [(oid_a, (stored_u1 ''Draft'')\<lparr>status := ''Submitted'', submitted_at := Some 22,
          audit_trail := [created_u1,
            \<lparr>action = ''Submitted'', user = ''u1@example.com'', timestamp = 21\<rparr>]\<rparr>)])"
    by (simp add: submit_db_u1 employee_simps)
  have s3: "approve_timesheet ObjectId_hex (db_u1 ''Draft'') oid_a manager_u3 21 22 =
     (Inr success,
      [(oid_a, (stored_u1 ''Draft'')\<lparr>status := ''Approved'', approved_at := Some 22,
          approved_by := Some ''u3'',
          audit_trail := [created_u1,
            \<lparr>action = ''Approved'', user = ''u3@example.com'', timestamp = 21\<rparr>]\<rparr>)])"
    by (simp add: approve_db_u1 manager_u3_simps)
  have s4: "reject_timesheet ObjectId_hex (db_u1 ''Draft'') oid_a manager_u3 21 22 =
     (Inr success,
      [(oid_a, (stored_u1 ''Draft'')\<lparr>status := ''Rejected'', rejected_at := Some 22,
          audit_trail := [created_u1,
            \<lparr>action = ''Rejected'', user = ''u3@example.com'', timestamp = 21\<rparr>]\<rparr>)])"
    by (simp add: reject_db_u1 manager_u3_simps)
  from c5[where db = "db_u1 ''Draft''", THEN conjunct1, rule_format, OF s1]
  have a1: "map_option audit_trail
     (find_one_id (snd (save_timesheet str_id (db_u1 ''Draft'') payload_u1 employee_u1 20 oid_b)) oid_a)
     = Some [created_u1, \<lparr>action = ''Updated'', user = ''u1@example.com'', timestamp = 20\<rparr>]"
    by (auto simp: s1 find_week_db_u1 old str_id_def employee_simps)
  from c5[where db = "db_u1 ''Draft''", THEN conjunct2, THEN conjunct1, rule_format, OF s2]
  have a2: "map_option audit_trail
     (find_one_id (snd (submit_timesheet ObjectId_hex (db_u1 ''Draft'') oid_a employee_u1 21 22)) oid_a)
     = Some [created_u1, \<lparr>action = ''Submitted'', user = ''u1@example.com'', timestamp = 21\<rparr>]"
    by (auto simp: s2 find_id_db_u1 old employee_simps)
  from c5m[THEN conjunct2, THEN conjunct2, THEN conjunct1, rule_format, OF s3]
  have a3: "map_option audit_trail
     (find_one_id (snd (approve_timesheet ObjectId_hex (db_u1 ''Draft'') oid_a manager_u3 21 22)) oid_a)
     = Some [created_u1, \<lparr>action = ''Approved'', user = ''u3@example.com'', timestamp = 21\<rparr>]"
    by (auto simp: s3 find_id_db_u1 old manager_u3_simps)
  from c5m[THEN conjunct2, THEN conjunct2, THEN conjunct2, THEN conjunct1, rule_format, OF s4]
  have a4: "map_option audit_trail
     (find_one_id (snd (reject_timesheet ObjectId_hex (db_u1 ''Draft'') oid_a manager_u3 21 22)) oid_a)
     = Some [created_u1, \<lparr>action = ''Rejected'', user = ''u3@example.com'', timestamp = 21\<rparr>]"
    by (auto simp: s4 find_id_db_u1 old manager_u3_simps)
  have n: "find_one_week [] (user_id payload_u1) (week_start_date payload_u1)
      = (None :: (string \<times> real Timesheet) option) \<and> oid_b \<notin> set (map fst ([] :: (string, real) collection))"
    by (simp add: find_week_empty)
  from c5[where db = "[]", THEN conjunct2, THEN conjunct2, THEN conjunct2, THEN conjunct2,
      rule_format, OF n]
  have a5: "\<exists>d. save_timesheet str_id [] payload_u1 employee_u1 20 oid_b
            = (Inl ValidationError, [(oid_b, d)])
        \<and> audit_trail d
            = [\<lparr>action = ''Created'', user = ''u1@example.com'', timestamp = 20\<rparr>]"
    by (auto simp: employee_simps)
  from a1 a2 a3 a4 a5 show ?thesis by blast
qed

subsection \<open>C6: approve and reject look at the role only\<close>

text \<open>
  C6. Approve and Reject by an Employee fail with \<open>Forbidden\<close> and leave the collection as
  it was, whatever the record and its status. By a Manager or an Admin they succeed on a
  stored record in any status, which becomes Approved or Rejected.
\<close>

theorem C6_role_guard_only:
  "(role cu = ''Employee'' \<longrightarrow>
      approve_timesheet ObjectId db ts_id cu na ns = (Inl Forbidden, db)
    \<and> reject_timesheet ObjectId db ts_id cu na ns = (Inl Forbidden, db))
 \<and> ((role cu = ''Manager'' \<or> role cu = ''Admin'') \<and> ObjectId ts_id = Some oid
      \<and> find_one_id db oid = Some ts \<longrightarrow>
      fst (approve_timesheet ObjectId db ts_id cu na ns) = Inr success
    \<and> find_one_id (snd (approve_timesheet ObjectId db ts_id cu na ns)) oid =
        Some (ts\<lparr>status := ''Approved'', approved_at := Some ns, approved_by := id_user cu,
           audit_trail := audit_trail ts
             @ [\<lparr>action = ''Approved'', user = email cu, timestamp = na\<rparr>]\<rparr>)
    \<and> fst (reject_timesheet ObjectId db ts_id cu na ns) = Inr success
    \<and> find_one_id (snd (reject_timesheet ObjectId db ts_id cu na ns)) oid =
        Some (ts\<lparr>status := ''Rejected'', rejected_at := Some ns,
           audit_trail := audit_trail ts
             @ [\<lparr>action = ''Rejected'', user = email cu, timestamp = na\<rparr>]\<rparr>))"
proof (intro conjI impI)
  assume "role cu = ''Employee''"
  then show "approve_timesheet ObjectId db ts_id cu na ns = (Inl Forbidden, db)"
    and "reject_timesheet ObjectId db ts_id cu na ns = (Inl Forbidden, db)"
    by (simp_all add: approve_employee reject_employee)
next
  assume a: "(role cu = ''Manager'' \<or> role cu = ''Admin'') \<and> ObjectId ts_id = Some oid
      \<and> find_one_id db oid = Some ts"
  then have h: "role cu \<noteq> ''Employee''" "ObjectId ts_id = Some oid" "find_one_id db oid = Some ts"
    by auto
  show "fst (approve_timesheet ObjectId db ts_id cu na ns) = Inr success"
    by (simp add: approve_existing(1)[where ObjectId=ObjectId and ts_id=ts_id, OF h])
  show "find_one_id (snd (approve_timesheet ObjectId db ts_id cu na ns)) oid =
        Some (ts\<lparr>status := ''Approved'', approved_at := Some ns, approved_by := id_user cu,
           audit_trail := audit_trail ts
             @ [\<lparr>action = ''Approved'', user = email cu, timestamp = na\<rparr>]\<rparr>)"
    by (rule approve_existing(2)[where ObjectId=ObjectId and ts_id=ts_id, OF h])
  show "fst (reject_timesheet ObjectId db ts_id cu na ns) = Inr success"
    by (simp add: reject_existing(1)[where ObjectId=ObjectId and ts_id=ts_id, OF h])
  show "find_one_id (snd (reject_timesheet ObjectId db ts_id cu na ns)) oid =
        Some (ts\<lparr>status := ''Rejected'', rejected_at := Some ns,
           audit_trail := audit_trail ts
             @ [\<lparr>action = ''Rejected'', user = email cu, timestamp = na\<rparr>]\<rparr>)"
    by (rule reject_existing(2)[where ObjectId=ObjectId and ts_id=ts_id, OF h])
qed

text \<open>On a Draft, which no one has submitted.\<close>

theorem C6_role_guard_only_witness:
  "approve_timesheet ObjectId_hex (db_u1 ''Draft'') oid_a employee_u1 21 22
     = (Inl Forbidden, db_u1 ''Draft'')
 \<and> reject_timesheet ObjectId_hex (db_u1 ''Draft'') oid_a employee_u1 21 22
     = (Inl Forbidden, db_u1 ''Draft'')
 \<and> fst (approve_timesheet ObjectId_hex (db_u1 ''Draft'') oid_a manager_u3 21 22) = Inr success
 \<and> map_option status
      (find_one_id (snd (approve_timesheet ObjectId_hex (db_u1 ''Draft'') oid_a manager_u3 21 22))
         oid_a) = Some ''Approved''
 \<and> fst (reject_timesheet ObjectId_hex (db_u1 ''Draft'') oid_a manager_u3 21 22) = Inr success
 \<and> map_option status
      (find_one_id (snd (reject_timesheet ObjectId_hex (db_u1 ''Draft'') oid_a manager_u3 21 22))
         oid_a) = Some ''Rejected''"
proof -
  note c6 = C6_role_guard_only[where ObjectId = ObjectId_hex and db = "db_u1 ''Draft''"
      and ts_id = oid_a and na = 21 and ns = 22 and oid = oid_a and ts = "stored_u1 ''Draft''"]
  have e: "role employee_u1 = ''Employee''"
    by (simp add: employee_simps)
  have m: "(role manager_u3 = ''Manager'' \<or> role manager_u3 = ''Admin'')
      \<and> ObjectId_hex oid_a = Some oid_a
      \<and> find_one_id (db_u1 ''Draft'') oid_a = Some (stored_u1 ''Draft'')"
    by (simp add: manager_u3_simps find_id_db_u1)
  from c6[where cu = employee_u1, THEN conjunct1, rule_format, OF e]
    c6[where cu = manager_u3, THEN conjunct2, rule_format, OF m]
  show ?thesis by simp
qed

subsection \<open>C7: submit has no status guard\<close>

text \<open>
  C7 says that Submit is permitted only from Draft or Rejected. The handler does not read
  the status: the owner submits an Approved timesheet, which becomes Submitted again.
\<close>

theorem C7_submit_approved_counterexample:
  "find_one_id (db_u1 ''Approved'') oid_a = Some (stored_u1 ''Approved'')
 \<and> status (stored_u1 ''Approved'') = ''Approved''
 \<and> submit_timesheet ObjectId_hex (db_u1 ''Approved'') oid_a employee_u1 21 22 =
     (Inr success,
      [(oid_a, (stored_u1 ''Approved'')\<lparr>status := ''Submitted'', submitted_at := Some 22,
          audit_trail := [created_u1,
            \<lparr>action = ''Submitted'', user = ''u1@example.com'', timestamp = 21\<rparr>]\<rparr>)])"
  by (simp add: find_id_db_u1 submit_db_u1 employee_simps) (simp add: stored_u1_def)

text \<open>
  C7, amended. Submit with a well-formed id fails with \<open>NotFound\<close> when no record has
  that id and leaves the collection as it was; called by the owner of the record, a
  Manager or an Admin, it succeeds on a stored record whatever its status, and the status
  becomes Submitted.
\<close>

theorem C7_submit_no_status_guard:
  assumes "ObjectId ts_id = Some oid"
  shows "(find_one_id db oid = None \<longrightarrow>
            submit_timesheet ObjectId db ts_id cu na ns = (Inl NotFound, db))
       \<and> (find_one_id db oid = Some ts
            \<and> (id_user cu = Some (user_id ts) \<or> role cu = ''Manager'' \<or> role cu = ''Admin'') \<longrightarrow>
            fst (submit_timesheet ObjectId db ts_id cu na ns) = Inr success
          \<and> map_option status (find_one_id (snd (submit_timesheet ObjectId db ts_id cu na ns)) oid)
              = Some ''Submitted'')"
proof (intro conjI impI)
  assume "find_one_id db oid = None"
  with assms show "submit_timesheet ObjectId db ts_id cu na ns = (Inl NotFound, db)"
    by (simp add: submit_timesheet_def)
next
  assume "find_one_id db oid = Some ts
            \<and> (id_user cu = Some (user_id ts) \<or> role cu = ''Manager'' \<or> role cu = ''Admin'')"
  then have h: "find_one_id db oid = Some ts" by simp
  show "fst (submit_timesheet ObjectId db ts_id cu na ns) = Inr success"
    by (simp add: submit_existing(1)[where ObjectId=ObjectId and ts_id=ts_id, OF assms h])
  show "map_option status (find_one_id (snd (submit_timesheet ObjectId db ts_id cu na ns)) oid)
              = Some ''Submitted''"
    by (simp add: submit_existing(2)[where ObjectId=ObjectId and ts_id=ts_id, OF assms h])
qed

text \<open>An id that is not stored, and the owner on an Approved record.\<close>

theorem C7_submit_no_status_guard_witness:
  "submit_timesheet ObjectId_hex (db_u1 ''Approved'') oid_b employee_u1 21 22
     = (Inl NotFound, db_u1 ''Approved'')
 \<and> fst (submit_timesheet ObjectId_hex (db_u1 ''Approved'') oid_a employee_u1 21 22) = Inr success
 \<and> map_option status
      (find_one_id (snd (submit_timesheet ObjectId_hex (db_u1 ''Approved'') oid_a employee_u1 21 22))
         oid_a) = Some ''Submitted''"
proof -
  have a: "ObjectId_hex oid_a = Some oid_a" and b: "ObjectId_hex oid_b = Some oid_b"
    by simp_all
  have n: "find_one_id (db_u1 ''Approved'') oid_b = None"
    by (rule find_id_db_u1)
  have o: "find_one_id (db_u1 ''Approved'') oid_a = Some (stored_u1 ''Approved'')
      \<and> (id_user employee_u1 = Some (user_id (stored_u1 ''Approved''))
          \<or> role employee_u1 = ''Manager'' \<or> role employee_u1 = ''Admin'')"
    by (simp add: find_id_db_u1 employee_simps stored_u1_def)
  from C7_submit_no_status_guard[where ObjectId = ObjectId_hex, OF b, THEN conjunct1,
      rule_format, OF n, of employee_u1 21 22]
    C7_submit_no_status_guard[where ObjectId = ObjectId_hex, OF a, THEN conjunct2,
      rule_format, OF o, of 21 22]
  show ?thesis by simp
qed

subsection \<open>C8: what Submit changes on a Draft\<close>

text \<open>
  C8. Submit on a stored Draft succeeds, whatever its total hours; afterwards the record
  has status Submitted, a \<open>submitted_at\<close> that is set, the old audit trail with one entry
  Submitted appended, and the total hours and rows it had.
\<close>

theorem C8_submit_draft:
  assumes "ObjectId ts_id = Some oid" and "find_one_id db oid = Some ts"
    and "status ts = ''Draft''"
  shows "\<exists>db' ts'. submit_timesheet ObjectId db ts_id cu na ns = (Inr success, db')
       \<and> find_one_id db' oid = Some ts'
       \<and> status ts' = ''Submitted'' \<and> submitted_at ts' = Some ns
       \<and> audit_trail ts' = audit_trail ts
            @ [\<lparr>action = ''Submitted'', user = email cu, timestamp = na\<rparr>]
       \<and> total_hours ts' = total_hours ts \<and> rows ts' = rows ts"
  using submit_existing[where ObjectId=ObjectId and ts_id=ts_id, OF assms(1,2), of cu na ns] by auto

text \<open>A Draft with no rows and a total of 0, below 40.\<close>

theorem C8_submit_draft_witness:
  "submit_timesheet ObjectId_hex (db_u1 ''Draft'') oid_a employee_u1 21 22 =
     (Inr success,
      [(oid_a, (stored_u1 ''Draft'')\<lparr>status := ''Submitted'', submitted_at := Some 22,
          audit_trail := [created_u1,
            \<lparr>action = ''Submitted'', user = ''u1@example.com'', timestamp = 21\<rparr>]\<rparr>)])
 \<and> total_hours (stored_u1 ''Draft'') < 40
 \<and> (\<exists>db' ts'. submit_timesheet ObjectId_hex (db_u1 ''Draft'') oid_a employee_u1 21 22
        = (Inr success, db')
      \<and> find_one_id db' oid_a = Some ts'
      \<and> status ts' = ''Submitted'' \<and> submitted_at ts' = Some 22
      \<and> audit_trail ts' = [created_u1,
            \<lparr>action = ''Submitted'', user = ''u1@example.com'', timestamp = 21\<rparr>]
      \<and> total_hours ts' = 0 \<and> rows ts' = [])"
proof -
  have a: "ObjectId_hex oid_a = Some oid_a"
    by simp
  have f: "find_one_id (db_u1 ''Draft'') oid_a = Some (stored_u1 ''Draft'')"
    by (rule find_id_db_u1)
  have s: "status (stored_u1 ''Draft'') = ''Draft''"
    by (simp add: stored_u1_def)
  have old: "audit_trail (stored_u1 ''Draft'') = [created_u1]"
    "total_hours (stored_u1 ''Draft'') = 0" "rows (stored_u1 ''Draft'') = []"
    by (simp_all add: stored_u1_def created_u1_def)
  from C8_submit_draft[where ObjectId = ObjectId_hex, OF a f s, of employee_u1 21 22]
  show ?thesis
    by (simp add: submit_db_u1 employee_simps old)
qed

subsection \<open>C9: reject without a record\<close>

text \<open>
  C9 says that a Reject by a Manager or an Admin with an id that is not stored reports
  success. \<^verbatim>\<open>reject_timesheet\<close> does not fail with \<open>NotFound\<close>, but it does not return
  either: it raises at \<^verbatim>\<open>ts.get\<close>, where \<^verbatim>\<open>approve_timesheet\<close> on the same input has
  tested \<^verbatim>\<open>ts\<close> and raised \<open>NotFound\<close>.
\<close>

theorem C9_reject_missing_record:
  "role manager_u3 = ''Manager'' \<and> ObjectId_hex oid_b = Some oid_b
 \<and> find_one_id (db_u1 ''Submitted'') oid_b = None
 \<and> reject_timesheet ObjectId_hex (db_u1 ''Submitted'') oid_b manager_u3 21 22
     = (Inl AttributeError, db_u1 ''Submitted'')
 \<and> approve_timesheet ObjectId_hex (db_u1 ''Submitted'') oid_b manager_u3 21 22
     = (Inl NotFound, db_u1 ''Submitted'')"
  by (simp add: manager_u3_simps find_id_db_u1 reject_timesheet_def approve_timesheet_def)

subsection \<open>C10: Save writes the workflow fields of the payload\<close>

text \<open>
  C10. For every Save that succeeds, \<open>submitted_at\<close>, \<open>approved_at\<close>, \<open>approved_by\<close> and
  \<open>rejected_at\<close> of the resulting record, returned and stored, are those of the payload,
  not those of the stored record. It is so on insert too: a Save under a new key does not
  succeed, it stores the record and raises at the response, and the record it has stored
  has these four fields of the payload.
\<close>

theorem C10_timestamps:
  "(save_timesheet str db p cu now new_id = (Inr ts, db') \<longrightarrow>
      submitted_at ts = submitted_at p \<and> approved_at ts = approved_at p
    \<and> approved_by ts = approved_by p \<and> rejected_at ts = rejected_at p
    \<and> (\<exists>oid d. id_ts ts = Some (str oid) \<and> find_one_id db' oid = Some d
           \<and> submitted_at d = submitted_at p \<and> approved_at d = approved_at p
           \<and> approved_by d = approved_by p \<and> rejected_at d = rejected_at p))
 \<and> (find_one_week db (user_id p) (week_start_date p) = None \<and> new_id \<notin> set (map fst db) \<longrightarrow>
      (\<exists>d. save_timesheet str db p cu now new_id = (Inl ValidationError, db @ [(new_id, d)])
         \<and> find_one_id (db @ [(new_id, d)]) new_id = Some d
         \<and> submitted_at d = submitted_at p \<and> approved_at d = approved_at p
         \<and> approved_by d = approved_by p \<and> rejected_at d = rejected_at p))"
proof (intro conjI impI)
  assume a: "save_timesheet str db p cu now new_id = (Inr ts, db')"
  then obtain oid d where st: "find_one_id db' oid = Some d" "same_document d ts"
    and ts: "id_ts ts = Some (str oid)" "submitted_at ts = submitted_at p"
      "approved_at ts = approved_at p" "approved_by ts = approved_by p"
      "rejected_at ts = rejected_at p"
    by (rule save_success) simp
  from ts show "submitted_at ts = submitted_at p" "approved_at ts = approved_at p"
    "approved_by ts = approved_by p" "rejected_at ts = rejected_at p"
    by simp_all
  from st ts same_document_fields[OF st(2)]
  show "\<exists>oid d. id_ts ts = Some (str oid) \<and> find_one_id db' oid = Some d
           \<and> submitted_at d = submitted_at p \<and> approved_at d = approved_at p
           \<and> approved_by d = approved_by p \<and> rejected_at d = rejected_at p"
    by auto
next
  assume "find_one_week db (user_id p) (week_start_date p) = None \<and> new_id \<notin> set (map fst db)"
  then have n: "find_one_week db (user_id p) (week_start_date p) = None"
    "new_id \<notin> set (map fst db)"
    by simp_all
  from save_new_stored[OF n, of str cu now]
  show "\<exists>d. save_timesheet str db p cu now new_id = (Inl ValidationError, db @ [(new_id, d)])
         \<and> find_one_id (db @ [(new_id, d)]) new_id = Some d
         \<and> submitted_at d = submitted_at p \<and> approved_at d = approved_at p
         \<and> approved_by d = approved_by p \<and> rejected_at d = rejected_at p"
    by auto
qed

text \<open>
  A Manager saves over an Approved record that has none of these fields set: they are set
  to what the payload says. On an empty collection the record stored has them as the
  payload says, with the status Draft.
\<close>

theorem C10_timestamps_witness:
  "save_timesheet str_id (db_u1 ''Approved'') payload_u1 manager_u3 20 oid_b
     = (Inr ((saved_u1 ''Approved''
              [created_u1, \<lparr>action = ''Updated'', user = ''u3@example.com'', timestamp = 20\<rparr>])
            \<lparr>id_ts := Some oid_a\<rparr>),
        [(oid_a, saved_u1 ''Approved''
              [created_u1, \<lparr>action = ''Updated'', user = ''u3@example.com'', timestamp = 20\<rparr>])])
 \<and> submitted_at (stored_u1 ''Approved'') = None \<and> approved_at (stored_u1 ''Approved'') = None
 \<and> approved_by (stored_u1 ''Approved'') = None
 \<and> (\<exists>d. find_one_id (snd (save_timesheet str_id (db_u1 ''Approved'') payload_u1 manager_u3 20 oid_b))
            oid_a = Some d
      \<and> submitted_at d = Some 1 \<and> approved_at d = Some 2 \<and> approved_by d = Some ''u1''
      \<and> rejected_at d = None)
 \<and> (\<exists>d. save_timesheet str_id [] payload_u1 manager_u3 20 oid_b
            = (Inl ValidationError, [(oid_b, d)])
      \<and> submitted_at d = Some 1 \<and> approved_at d = Some 2 \<and> approved_by d = Some ''u1''
      \<and> rejected_at d = None)"
proof -
  note c10 = C10_timestamps[where str = str_id and p = payload_u1 and cu = manager_u3
      and now = 20 and new_id = oid_b]
  have h: "save_timesheet str_id (db_u1 ''Approved'') payload_u1 manager_u3 20 oid_b
     = (Inr ((saved_u1 ''Approved''
              [created_u1, \<lparr>action = ''Updated'', user = ''u3@example.com'', timestamp = 20\<rparr>])
            \<lparr>id_ts := Some oid_a\<rparr>),
        [(oid_a, saved_u1 ''Approved''
              [created_u1, \<lparr>action = ''Updated'', user = ''u3@example.com'', timestamp = 20\<rparr>])])"
    by (simp add: save_db_u1 manager_u3_simps)
  have n: "find_one_week [] (user_id payload_u1) (week_start_date payload_u1)
      = (None :: (string \<times> real Timesheet) option) \<and> oid_b \<notin> set (map fst ([] :: (string, real) collection))"
    by (simp add: find_week_empty)
  have p: "submitted_at payload_u1 = Some 1" "approved_at payload_u1 = Some 2"
    "approved_by payload_u1 = Some ''u1''" "rejected_at payload_u1 = None"
    by (simp_all add: payload_u1_def)
  from c10[THEN conjunct1, rule_format, OF h]
  have "\<exists>d. find_one_id (snd (save_timesheet str_id (db_u1 ''Approved'') payload_u1 manager_u3 20 oid_b))
            oid_a = Some d
      \<and> submitted_at d = Some 1 \<and> approved_at d = Some 2 \<and> approved_by d = Some ''u1''
      \<and> rejected_at d = None"
    by (auto simp: h p str_id_def)
  moreover from c10[THEN conjunct2, rule_format, OF n]
  have "\<exists>d. save_timesheet str_id [] payload_u1 manager_u3 20 oid_b
            = (Inl ValidationError, [(oid_b, d)])
      \<and> submitted_at d = Some 1 \<and> approved_at d = Some 2 \<and> approved_by d = Some ''u1''
      \<and> rejected_at d = None"
    by (auto simp: p)
  moreover have "submitted_at (stored_u1 ''Approved'') = None"
    "approved_at (stored_u1 ''Approved'') = None" "approved_by (stored_u1 ''Approved'') = None"
    by (simp_all add: stored_u1_def)
  ultimately show ?thesis
    using h by simp
qed

end
